theory Spec2Isabelle
  imports Complex_Main "HOL-Library.Word"
begin

unbundle bit_operations_syntax

section \<open>Python values, errors and the library environment\<close>

text \<open>
  The script \<^verbatim>\<open>scripts/build_muf_rt.py\<close> is modelled function by function.
  Python floats are modelled as real numbers (float arithmetic does not round, there is
  no NaN and no infinity; the conversion of an int to a float rounds and overflows);
  every place where the interpreter raises is a branch returning \<open>Inl\<close> of the
  exception. Python's unbounded integers are \<open>int\<close>.
\<close>

datatype pyerr =
    TypeError | ValueError | OverflowError | AttributeError | KeyError
  | StructError | OSError

text \<open>What \<^verbatim>\<open>json.loads\<close> returns: None, bool, int, float, str, list, dict.
  A dict is kept as its list of items; a later item for the same key wins.\<close>

datatype json =
    JNull | JBool bool | JInt int | JFloat real | JStr string
  | JArr "json list" | JObj "(string \<times> json) list"

text \<open>A \<^verbatim>\<open>datetime\<close> object: its wall-clock reading in seconds counted from
  1970-01-01T00:00:00 on that same wall clock, and the UTC offset of its \<^verbatim>\<open>tzinfo\<close>
  (\<open>None\<close> for a naive datetime).\<close>

record datetime =
  wall :: real
  tzinfo :: "int option"

text \<open>The standard-library functions the script calls on strings and datetimes are
  parameters of the model: \<^verbatim>\<open>float(s)\<close> on a str (\<open>None\<close> when it raises ValueError),
  \<^verbatim>\<open>datetime.fromisoformat\<close> (\<open>None\<close> when it raises) and \<^verbatim>\<open>datetime.timestamp\<close>
  (\<open>None\<close> when it raises).\<close>

record pylib =
  float_of_str :: "string \<Rightarrow> real option"
  fromisoformat :: "string \<Rightarrow> datetime option"
  timestamp :: "datetime \<Rightarrow> real option"

text \<open>The number of binary digits of a natural number, \<^verbatim>\<open>int.bit_length\<close>.\<close>

fun bit_length :: "nat \<Rightarrow> nat" where
  "bit_length n = (if n = 0 then 0 else Suc (bit_length (n div 2)))"

declare bit_length.simps [simp del]

text \<open>The double nearest to an int below the overflow threshold: an int of magnitude up
  to \<open>2^53\<close> is a double; a larger one keeps its 53 leading binary digits, rounded to
  nearest, a tie going to the even neighbour.\<close>

definition round_double :: "int \<Rightarrow> int" where
  "round_double n =
     (if \<bar>n\<bar> \<le> 2 ^ 53 then n
      else
        let e = bit_length (nat \<bar>n\<bar>) - 53;
            q = \<bar>n\<bar> div 2 ^ e;
            r = \<bar>n\<bar> mod 2 ^ e;
            q' = (if 2 * r > 2 ^ e \<or> (2 * r = 2 ^ e \<and> odd q) then q + 1 else q)
        in sgn n * (q' * 2 ^ e))"

text \<open>\<^verbatim>\<open>float(n)\<close> on an int, also the conversion of an int operand in arithmetic
  with a float: OverflowError when \<open>n\<close> rounds to a magnitude of \<open>2^1024\<close> or more,
  that is from \<open>2^1024 - 2^970\<close> on, and the nearest double otherwise.\<close>

definition float_of_int :: "int \<Rightarrow> pyerr + real" where
  "float_of_int n =
     (if \<bar>n\<bar> \<ge> 2 ^ 1024 - 2 ^ 970 then Inl OverflowError
      else Inr (of_int (round_double n)))"

text \<open>\<^verbatim>\<open>float(v)\<close> on a decoded JSON value.\<close>

fun py_float :: "pylib \<Rightarrow> json \<Rightarrow> pyerr + real" where
  "py_float L (JInt n) = float_of_int n"
| "py_float L (JBool b) = Inr (if b then 1 else 0)"
| "py_float L (JFloat x) = Inr x"
| "py_float L (JStr s) =
     (case float_of_str L s of None \<Rightarrow> Inl ValueError | Some x \<Rightarrow> Inr x)"
| "py_float L JNull = Inl TypeError"
| "py_float L (JArr xs) = Inl TypeError"
| "py_float L (JObj kvs) = Inl TypeError"

text \<open>\<^verbatim>\<open>d.get(key)\<close> and \<^verbatim>\<open>d[key]\<close> on a dict given by its items.\<close>

definition dict_get :: "(string \<times> json) list \<Rightarrow> string \<Rightarrow> json option" where
  "dict_get kvs k = map_of (rev kvs) k"

text \<open>\<^verbatim>\<open>d.get(key, default)\<close>; \<^verbatim>\<open>d.get(key)\<close> is \<open>get_or d key JNull\<close>.\<close>

definition get_or :: "(string \<times> json) list \<Rightarrow> string \<Rightarrow> json \<Rightarrow> json" where
  "get_or kvs k dflt = (case dict_get kvs k of None \<Rightarrow> dflt | Some v \<Rightarrow> v)"

text \<open>\<^verbatim>\<open>v[key]\<close> with a str key: KeyError on a dict without the key, TypeError on
  anything that is not a dict.\<close>

fun subscript :: "json \<Rightarrow> string \<Rightarrow> pyerr + json" where
  "subscript (JObj kvs) k =
     (case dict_get kvs k of None \<Rightarrow> Inl KeyError | Some v \<Rightarrow> Inr v)"
| "subscript v k = Inl TypeError"

text \<open>\<^verbatim>\<open>s.replace("Z", "")\<close>: every occurrence of the letter is removed.\<close>

definition replace_Z :: "string \<Rightarrow> string" where
  "replace_Z s = filter (\<lambda>c. c \<noteq> CHR ''Z'') s"

section \<open>Sample ingestion\<close>

text \<open>
  \<^verbatim>\<open>
  def parse_time(ts):
      if isinstance(ts, (int, float)):
          return float(ts)
      try:
          return dt.datetime.fromisoformat(ts.replace("Z", "")).timestamp()
      except Exception:
          return 0.0
  \<close>
  A bool is an int for \<^verbatim>\<open>isinstance\<close>. None, lists and dicts have no
  \<^verbatim>\<open>replace\<close> method: the AttributeError is caught.
\<close>

fun parse_time :: "pylib \<Rightarrow> json \<Rightarrow> pyerr + real" where
  "parse_time L (JInt n) = float_of_int n"
| "parse_time L (JBool b) = Inr (if b then 1 else 0)"
| "parse_time L (JFloat x) = Inr x"
| "parse_time L (JStr s) =
     (case fromisoformat L (replace_Z s) of
        None \<Rightarrow> Inr 0
      | Some d \<Rightarrow> (case timestamp L d of None \<Rightarrow> Inr 0 | Some t \<Rightarrow> Inr t))"
| "parse_time L JNull = Inr 0"
| "parse_time L (JArr xs) = Inr 0"
| "parse_time L (JObj kvs) = Inr 0"

text \<open>The body of the \<^verbatim>\<open>try\<close> in the ingestion loop; the bare \<^verbatim>\<open>except\<close> turns
  every exception into \<^verbatim>\<open>continue\<close>, here \<open>None\<close>.
  \<^verbatim>\<open>
          try:
              lon=float(st["longitude"])
              lat=float(st["latitude"])
              muf=float(r["mufd"])
          except:
              continue
  \<close>\<close>

definition get_float :: "pylib \<Rightarrow> json \<Rightarrow> string \<Rightarrow> real option" where
  "get_float L v k =
     (case subscript v k of
        Inl e \<Rightarrow> None
      | Inr x \<Rightarrow> (case py_float L x of Inl e \<Rightarrow> None | Inr f \<Rightarrow> Some f))"

definition coords :: "pylib \<Rightarrow> json \<Rightarrow> json \<Rightarrow> (real \<times> real \<times> real) option" where
  "coords L st r =
     (case get_float L st ''longitude'' of
        None \<Rightarrow> None
      | Some lon \<Rightarrow>
          (case get_float L st ''latitude'' of
             None \<Rightarrow> None
           | Some lat \<Rightarrow>
               (case get_float L r ''mufd'' of
                  None \<Rightarrow> None
                | Some muf \<Rightarrow> Some (lon, lat, muf))))"

text \<open>\<^verbatim>\<open>if conf>1: conf/=100\<close>\<close>

definition rescale :: "real \<Rightarrow> real" where
  "rescale conf = (if conf > 1 then conf / 100 else conf)"

text \<open>The lines after the \<^verbatim>\<open>try\<close>, for a record \<open>r\<close> that is a dict with items
  \<open>kvs\<close>:
  \<^verbatim>\<open>
          if now-parse_time(r.get("time"))>3600: continue
          conf=float(r.get("confidence",1))
          if conf>1: conf/=100
          pts.append((lon,lat,muf,conf))
  \<close>
  \<open>Inr None\<close> is \<^verbatim>\<open>continue\<close>, \<open>Inr (Some p)\<close> is the appended tuple, \<open>Inl e\<close> an
  exception that leaves \<^verbatim>\<open>main\<close>.\<close>

definition keep :: "pylib \<Rightarrow> real \<Rightarrow> (string \<times> json) list \<Rightarrow> real \<times> real \<times> real
    \<Rightarrow> pyerr + (real \<times> real \<times> real \<times> real) option" where
  "keep L now kvs c =
     (case parse_time L (get_or kvs ''time'' JNull) of
        Inl e \<Rightarrow> Inl e
      | Inr t \<Rightarrow>
          if now - t > 3600 then Inr None
          else
            (case py_float L (get_or kvs ''confidence'' (JInt 1)) of
               Inl e \<Rightarrow> Inl e
             | Inr conf \<Rightarrow>
                 (case c of (lon, lat, muf) \<Rightarrow> Inr (Some (lon, lat, muf, rescale conf)))))"

text \<open>One iteration of \<^verbatim>\<open>for r in raw\<close>. \<^verbatim>\<open>r.get("station",{})\<close> raises
  AttributeError when \<open>r\<close> is not a dict.\<close>

fun ingest_record :: "pylib \<Rightarrow> real \<Rightarrow> json
    \<Rightarrow> pyerr + (real \<times> real \<times> real \<times> real) option" where
  "ingest_record L now (JObj kvs) =
     (case coords L (get_or kvs ''station'' (JObj [])) (JObj kvs) of
        None \<Rightarrow> Inr None
      | Some c \<Rightarrow> keep L now kvs c)"
| "ingest_record L now r = Inl AttributeError"

text \<open>The whole loop: \<open>pts\<close> in the order of \<open>raw\<close>, or the first exception.\<close>

fun ingest :: "pylib \<Rightarrow> real \<Rightarrow> json list
    \<Rightarrow> pyerr + (real \<times> real \<times> real \<times> real) list" where
  "ingest L now [] = Inr []"
| "ingest L now (r # raw) =
     (case ingest_record L now r of
        Inl e \<Rightarrow> Inl e
      | Inr None \<Rightarrow> ingest L now raw
      | Inr (Some p) \<Rightarrow>
          (case ingest L now raw of Inl e \<Rightarrow> Inl e | Inr pts \<Rightarrow> Inr (p # pts)))"

subsection \<open>A sample library environment\<close>

text \<open>A concrete environment for evaluating the model: decimal strings such as
  \<^verbatim>\<open>"-12.5"\<close> for \<^verbatim>\<open>float\<close>, the form \<^verbatim>\<open>YYYY-MM-DDTHH:MM:SS\<close> for
  \<^verbatim>\<open>fromisoformat\<close> (which then returns a naive datetime), and a local time zone
  with a fixed offset of \<open>off\<close> seconds east of UTC: a naive datetime is read as
  local time by \<^verbatim>\<open>timestamp\<close>.\<close>

definition digit :: "char \<Rightarrow> int option" where
  "digit c = (if c \<in> set ''0123456789'' then Some (of_char c - 48) else None)"

fun digits :: "int \<Rightarrow> string \<Rightarrow> int option" where
  "digits acc [] = Some acc"
| "digits acc (c # cs) =
     (case digit c of None \<Rightarrow> None | Some d \<Rightarrow> digits (10 * acc + d) cs)"

definition number :: "string \<Rightarrow> int option" where
  "number s = (if s = [] then None else digits 0 s)"

definition unsigned_decimal :: "string \<Rightarrow> real option" where
  "unsigned_decimal s =
     (let ip = takeWhile (\<lambda>c. c \<noteq> CHR ''.'') s; rest = dropWhile (\<lambda>c. c \<noteq> CHR ''.'') s in
      case number ip of
        None \<Rightarrow> None
      | Some i \<Rightarrow>
          (if rest = [] then Some (of_int i)
           else case number (tl rest) of
             None \<Rightarrow> None
           | Some f \<Rightarrow> Some (of_int i + of_int f / 10 ^ length (tl rest))))"

definition decimal :: "string \<Rightarrow> real option" where
  "decimal s =
     (case s of
        [] \<Rightarrow> None
      | c # cs \<Rightarrow>
          if c = CHR ''-'' then map_option uminus (unsigned_decimal cs)
          else unsigned_decimal s)"

definition days_from_civil :: "int \<Rightarrow> int \<Rightarrow> int \<Rightarrow> int" where
  "days_from_civil y m d =
     (let y' = (if m \<le> 2 then y - 1 else y);
          era = y' div 400;
          yoe = y' - era * 400;
          doy = (153 * (if m > 2 then m - 3 else m + 9) + 2) div 5 + d - 1;
          doe = yoe * 365 + yoe div 4 - yoe div 100 + doy
      in era * 146097 + doe - 719468)"

definition days_in_month :: "int \<Rightarrow> int \<Rightarrow> int" where
  "days_in_month y m =
     (if m = 2 then (if y mod 4 = 0 \<and> (y mod 100 \<noteq> 0 \<or> y mod 400 = 0) then 29 else 28)
      else if m \<in> {4, 6, 9, 11} then 30 else 31)"

definition iso_basic :: "string \<Rightarrow> datetime option" where
  "iso_basic s =
     (if length s \<noteq> 19 \<or> s ! 4 \<noteq> CHR ''-'' \<or> s ! 7 \<noteq> CHR ''-''
         \<or> s ! 13 \<noteq> CHR '':'' \<or> s ! 16 \<noteq> CHR '':'' then None
      else
        case (number (take 4 s), number (take 2 (drop 5 s)), number (take 2 (drop 8 s)),
              number (take 2 (drop 11 s)), number (take 2 (drop 14 s)),
              number (take 2 (drop 17 s))) of
          (Some y, Some m, Some d, Some hh, Some mm, Some ss) \<Rightarrow>
            if 1 \<le> y \<and> 1 \<le> m \<and> m \<le> 12 \<and> 1 \<le> d \<and> d \<le> days_in_month y m
               \<and> hh < 24 \<and> mm < 60 \<and> ss < 60
            then Some \<lparr>wall = of_int (days_from_civil y m d * 86400 + hh * 3600 + mm * 60 + ss),
                       tzinfo = None\<rparr>
            else None
        | _ \<Rightarrow> None)"

definition local_timestamp :: "int \<Rightarrow> datetime \<Rightarrow> real option" where
  "local_timestamp off d =
     Some (wall d - of_int (case tzinfo d of None \<Rightarrow> off | Some o' \<Rightarrow> o'))"

definition sample_lib :: "int \<Rightarrow> pylib" where
  "sample_lib off =
     \<lparr>float_of_str = decimal, fromisoformat = iso_basic, timestamp = local_timestamp off\<rparr>"

text \<open>The invariant of the data model: the confidence of an observation lies in
  \<open>[0,1]\<close>.\<close>

definition valid_confidence :: "real \<times> real \<times> real \<times> real \<Rightarrow> bool" where
  "valid_confidence p = (case p of (lon, lat, muf, conf) \<Rightarrow> 0 \<le> conf \<and> conf \<le> 1)"

section \<open>Geodesic distance and grid coordinates\<close>

text \<open>\<^verbatim>\<open>x % y\<close> on floats: the remainder takes the sign of the divisor.\<close>

definition np_mod :: "real \<Rightarrow> real \<Rightarrow> real" where
  "np_mod x y = x - y * of_int \<lfloor>x / y\<rfloor>"

text \<open>The normalised longitude difference, the first line of \<^verbatim>\<open>haversine_rad\<close>:
  \<^verbatim>\<open>dlon = (lon2 - lon1 + np.pi) % (2*np.pi) - np.pi\<close>\<close>

definition dlon :: "real \<Rightarrow> real \<Rightarrow> real" where
  "dlon lon1 lon2 = np_mod (lon2 - lon1 + pi) (2 * pi) - pi"

text \<open>
  \<^verbatim>\<open>
  def haversine_rad(lon1, lat1, lon2, lat2):
      dlon = (lon2 - lon1 + np.pi) % (2*np.pi) - np.pi
      dlat = lat2 - lat1
      a = np.sin(dlat/2)**2 + np.cos(lat1)*np.cos(lat2)*np.sin(dlon/2)**2
      return 2*np.arcsin(np.sqrt(a))
  \<close>
  on one pair of points.
\<close>

definition haversine_rad :: "real \<Rightarrow> real \<Rightarrow> real \<Rightarrow> real \<Rightarrow> real" where
  "haversine_rad lon1 lat1 lon2 lat2 =
     (let dlat = lat2 - lat1;
          a = (sin (dlat / 2))\<^sup>2 + cos lat1 * cos lat2 * (sin (dlon lon1 lon2 / 2))\<^sup>2
      in 2 * arcsin (sqrt a))"

text \<open>\<^verbatim>\<open>int(x)\<close> on a float truncates towards zero.\<close>

definition py_int :: "real \<Rightarrow> int" where
  "py_int x = (if x \<ge> 0 then \<lfloor>x\<rfloor> else \<lceil>x\<rceil>)"

text \<open>
  \<^verbatim>\<open>
  def lonlat_to_xy(lon, lat, w, h):
      x = int((lon+180)/360*(w-1))
      y = int((90-lat)/180*(h-1))
      return max(0,min(w-1,x)), max(0,min(h-1,y))
  \<close>
\<close>

text \<open>The int operands \<open>w-1\<close> and \<open>h-1\<close> are converted to floats for the
  products, the first one first.\<close>

definition lonlat_to_xy :: "real \<Rightarrow> real \<Rightarrow> int \<Rightarrow> int \<Rightarrow> pyerr + int \<times> int" where
  "lonlat_to_xy lon lat w h =
     (case float_of_int (w - 1) of
        Inl e \<Rightarrow> Inl e
      | Inr fw \<Rightarrow>
          (case float_of_int (h - 1) of
             Inl e \<Rightarrow> Inl e
           | Inr fh \<Rightarrow>
               let x = py_int ((lon + 180) / 360 * fw);
                   y = py_int ((90 - lat) / 180 * fh)
               in Inr (max 0 (min (w - 1) x), max 0 (min (h - 1) y))))"

section \<open>Colour ramp\<close>

definition stops :: "(real \<times> real \<times> real \<times> real) list" where
  "stops = [(5,0,0,180), (10,0,180,255), (15,0,255,0),
            (20,255,255,0), (25,255,165,0), (30,255,60,0), (35,255,0,0)]"

text \<open>\<^verbatim>\<open>np.interp(x, xp, fp)\<close> on one \<open>x\<close>, for increasing \<open>xp\<close> of the length of
  \<open>fp\<close>: \<open>fp[0]\<close> to the left of the table, \<open>fp[-1]\<close> to its right, the chord of
  the enclosing interval in between. (On tables of different lengths or an empty table
  numpy raises; \<^verbatim>\<open>colormap\<close> calls it on its fixed table only.)\<close>

fun np_interp :: "real \<Rightarrow> real list \<Rightarrow> real list \<Rightarrow> real" where
  "np_interp x (x0 # x1 # xp) (y0 # y1 # fp) =
     (if x \<le> x0 then y0
      else if x < x1 then (y1 - y0) / (x1 - x0) * (x - x0) + y0
      else np_interp x (x1 # xp) (y1 # fp))"
| "np_interp x [x0] [y0] = y0"
| "np_interp x xp fp = 0"

text \<open>\<^verbatim>\<open>.astype(np.uint8)\<close> on one float: truncation, kept modulo 256.\<close>

definition uint8 :: "real \<Rightarrow> 8 word" where
  "uint8 v = word_of_int (py_int v)"

text \<open>\<^verbatim>\<open>.reshape\<close> of a flat array back into rows of the given lengths.\<close>

fun reshape :: "nat list \<Rightarrow> 'a list \<Rightarrow> 'a list list" where
  "reshape [] ys = []"
| "reshape (n # ns) ys = take n ys # reshape ns (drop n ys)"

text \<open>
  \<^verbatim>\<open>
  def colormap(mhz):
      stops = [...]
      xs = np.array([s[0] for s in stops])
      rs = np.array([s[1] for s in stops])
      gs = np.array([s[2] for s in stops])
      bs = np.array([s[3] for s in stops])
      flat = mhz.ravel()
      r = np.interp(flat,xs,rs)
      g = np.interp(flat,xs,gs)
      b = np.interp(flat,xs,bs)
      return np.stack([r,g,b],axis=1).astype(np.uint8).reshape((*mhz.shape,3))
  \<close>
  on a two-dimensional array given by its rows.
\<close>

definition colormap :: "real list list \<Rightarrow> (8 word \<times> 8 word \<times> 8 word) list list" where
  "colormap mhz =
     (let xs = map (\<lambda>(x, r, g, b). x) stops;
          rs = map (\<lambda>(x, r, g, b). r) stops;
          gs = map (\<lambda>(x, r, g, b). g) stops;
          bs = map (\<lambda>(x, r, g, b). b) stops;
          flat = concat mhz;
          r = map (\<lambda>v. np_interp v xs rs) flat;
          g = map (\<lambda>v. np_interp v xs gs) flat;
          b = map (\<lambda>v. np_interp v xs bs) flat
      in reshape (map length mhz)
           (map (\<lambda>(r, g, b). (uint8 r, uint8 g, uint8 b)) (zip r (zip g b))))"

section \<open>Bitmap persistence\<close>

type_synonym byte = "8 word"

text \<open>\<^verbatim>\<open>struct.pack\<close> with a little-endian format: the codes \<^verbatim>\<open>I\<close>, \<^verbatim>\<open>i\<close>,
  \<^verbatim>\<open>H\<close> and \<^verbatim>\<open>Ns\<close>, and the arguments. It raises \<^verbatim>\<open>struct.error\<close> when the number
  of arguments is not the number of codes, when an argument has the wrong type or when
  an integer is out of the range of its code.\<close>

datatype fmt = FI | Fi | FH | Fs nat

datatype parg = PInt int | PBytes "byte list"

definition le_bytes :: "nat \<Rightarrow> int \<Rightarrow> byte list" where
  "le_bytes n v = map (\<lambda>i. word_of_int (drop_bit (8 * i) v)) [0..<n]"

fun pack_item :: "fmt \<Rightarrow> parg \<Rightarrow> pyerr + byte list" where
  "pack_item FI (PInt v) = (if 0 \<le> v \<and> v < 2 ^ 32 then Inr (le_bytes 4 v) else Inl StructError)"
| "pack_item Fi (PInt v) =
     (if - (2 ^ 31) \<le> v \<and> v < 2 ^ 31 then Inr (le_bytes 4 v) else Inl StructError)"
| "pack_item FH (PInt v) = (if 0 \<le> v \<and> v < 2 ^ 16 then Inr (le_bytes 2 v) else Inl StructError)"
| "pack_item (Fs n) (PBytes b) = Inr (take n b @ replicate (n - length b) 0)"
| "pack_item f a = Inl StructError"

fun pack_items :: "fmt list \<Rightarrow> parg list \<Rightarrow> pyerr + byte list" where
  "pack_items (f # fs) (a # as) =
     (case pack_item f a of
        Inl e \<Rightarrow> Inl e
      | Inr b \<Rightarrow> (case pack_items fs as of Inl e \<Rightarrow> Inl e | Inr bs \<Rightarrow> Inr (b @ bs)))"
| "pack_items fs as = Inr []"

definition struct_pack :: "fmt list \<Rightarrow> parg list \<Rightarrow> pyerr + byte list" where
  "struct_pack fs as = (if length fs \<noteq> length as then Inl StructError else pack_items fs as)"

text \<open>An image as \<^verbatim>\<open>write_bmp\<close> reads it: \<^verbatim>\<open>img.size\<close> and the bytes of
  \<^verbatim>\<open>img.convert("RGB").tobytes()\<close>.\<close>

record image =
  size_w :: nat
  size_h :: nat
  tobytes :: "byte list"

text \<open>The body of the pixel loop for the byte offset \<open>i\<close>:
  \<^verbatim>\<open>
              r,g,b = rgb[i:i+3]
              v=((r>>3)<<11)|((g>>2)<<5)|(b>>3)
              rows+=struct.pack("<H",v)
  \<close>
  Unpacking a slice of fewer than three bytes raises ValueError.\<close>

definition rgb565 :: "byte \<Rightarrow> byte \<Rightarrow> byte \<Rightarrow> int" where
  "rgb565 r g b =
     push_bit 11 (drop_bit 3 (uint r)) OR push_bit 5 (drop_bit 2 (uint g)) OR drop_bit 3 (uint b)"

definition pixel :: "byte list \<Rightarrow> nat \<Rightarrow> pyerr + byte list" where
  "pixel rgb i =
     (case take 3 (drop i rgb) of
        [r, g, b] \<Rightarrow> struct_pack [FH] [PInt (rgb565 r g b)]
      | _ \<Rightarrow> Inl ValueError)"

fun pixels :: "byte list \<Rightarrow> nat list \<Rightarrow> pyerr + byte list" where
  "pixels rgb [] = Inr []"
| "pixels rgb (i # is) =
     (case pixel rgb i of
        Inl e \<Rightarrow> Inl e
      | Inr b \<Rightarrow> (case pixels rgb is of Inl e \<Rightarrow> Inl e | Inr bs \<Rightarrow> Inr (b @ bs)))"

text \<open>The offsets \<^verbatim>\<open>i=(y*w+x)*3\<close> in the order of the two nested loops.\<close>

definition offsets :: "nat \<Rightarrow> nat \<Rightarrow> nat list" where
  "offsets w h = concat (map (\<lambda>y. map (\<lambda>x. (y * w + x) * 3) [0..<w]) [0..<h])"

text \<open>The bytes \<^verbatim>\<open>bmp = hdr+v4+rows\<close>, lines 87 to 99 of the script:
  \<^verbatim>\<open>
      hdr = struct.pack("<2sIHHI",b"BM",14+108+len(rows),0,0,122)
      v4 = struct.pack("<IiiHHIIiiIIIIII36sIII",108,w,-h,1,16,3,len(rows),0,0,0,0,
          0xF800,0x07E0,0x001F,0,0x73524742,b"\0"*36,0,0,0)
  \<close>\<close>

definition bmp_bytes :: "image \<Rightarrow> pyerr + byte list" where
  "bmp_bytes img =
     (let w = size_w img; h = size_h img in
      case pixels (tobytes img) (offsets w h) of
        Inl e \<Rightarrow> Inl e
      | Inr rows \<Rightarrow>
          (case struct_pack [Fs 2, FI, FH, FH, FI]
                  [PBytes [0x42, 0x4D], PInt (14 + 108 + int (length rows)), PInt 0, PInt 0,
                   PInt 122] of
             Inl e \<Rightarrow> Inl e
           | Inr hdr \<Rightarrow>
               (case struct_pack
                       [FI, Fi, Fi, FH, FH, FI, FI, Fi, Fi, FI, FI, FI, FI, FI, FI, Fs 36,
                        FI, FI, FI]
                       [PInt 108, PInt (int w), PInt (- int h), PInt 1, PInt 16, PInt 3,
                        PInt (int (length rows)), PInt 0, PInt 0, PInt 0, PInt 0,
                        PInt 0xF800, PInt 0x07E0, PInt 0x001F, PInt 0, PInt 0x73524742,
                        PBytes (replicate 36 0), PInt 0, PInt 0, PInt 0] of
                  Inl e \<Rightarrow> Inl e
                | Inr v4 \<Rightarrow> Inr (hdr @ v4 @ rows))))"

subsection \<open>The file system and the write sequence\<close>

text \<open>A file system maps a path to the bytes of the file there. The calls of
  \<^verbatim>\<open>write_bmp\<close> on it: \<^verbatim>\<open>open(p,"wb")\<close> creates or truncates;
  \<^verbatim>\<open>.write(b)\<close> hands the bytes to the buffered writer, which writes what exceeds
  its buffer during the call and the rest when the file object, never closed by the
  script, is finalised at the end of the statement; \<^verbatim>\<open>os.replace(a,b)\<close> renames
  in one step and raises when \<open>a\<close> is missing.\<close>

type_synonym fs = "string \<Rightarrow> byte list option"

datatype io = OpenWB string | Write string "byte list" | Replace string string

fun io_step :: "io \<Rightarrow> fs \<Rightarrow> pyerr + fs" where
  "io_step (OpenWB p) s = Inr (s(p \<mapsto> []))"
| "io_step (Write p b) s = Inr (s(p \<mapsto> b))"
| "io_step (Replace a b) s =
     (case s a of None \<Rightarrow> Inl OSError | Some c \<Rightarrow> Inr (s(b \<mapsto> c, a := None)))"

text \<open>A call that fails for an outside reason (disk full, permissions): a failed
  \<^verbatim>\<open>open\<close> or \<^verbatim>\<open>os.replace\<close> changes nothing, a failed write leaves the first \<open>n\<close>
  bytes in the file.\<close>

fun io_fail :: "nat \<Rightarrow> io \<Rightarrow> fs \<Rightarrow> fs" where
  "io_fail n (OpenWB p) s = s"
| "io_fail n (Write p b) s = s(p \<mapsto> take n b)"
| "io_fail n (Replace a b) s = s"

text \<open>\<open>Fault j n\<close>: the call number \<open>j\<close> (from 0) fails and raises, after \<open>n\<close> bytes
  if it is a write (the failure is met during \<^verbatim>\<open>.write\<close>).
  \<open>Silent j n\<close>: the call number \<open>j\<close> is a write whose failure, after \<open>n\<close> bytes, is
  met when the buffer is flushed at finalisation: the interpreter discards that
  exception and the script goes on. On a call that is not a write \<open>Silent\<close> is no
  fault.\<close>

datatype fault = NoFault | Fault nat nat | Silent nat nat

definition faulty :: "fault \<Rightarrow> nat \<Rightarrow> bool" where
  "faulty f i = (case f of NoFault \<Rightarrow> False | Fault j n \<Rightarrow> j = i | Silent j n \<Rightarrow> False)"

definition fault_bytes :: "fault \<Rightarrow> nat" where
  "fault_bytes f = (case f of NoFault \<Rightarrow> 0 | Fault j n \<Rightarrow> n | Silent j n \<Rightarrow> n)"

fun silent :: "fault \<Rightarrow> nat \<Rightarrow> io \<Rightarrow> bool" where
  "silent (Silent j n) i (Write p b) = (j = i)"
| "silent f i c = False"

text \<open>Running calls in order from the state \<open>s\<close>: the exception if one is raised, and
  the states of the file system after each call that ran.\<close>

fun run_io :: "fault \<Rightarrow> nat \<Rightarrow> io list \<Rightarrow> fs \<Rightarrow> pyerr option \<times> fs list" where
  "run_io f i [] s = (None, [])"
| "run_io f i (c # cs) s =
     (if faulty f i then (Some OSError, [io_fail (fault_bytes f) c s])
      else if silent f i c then
        (case run_io f (Suc i) cs (io_fail (fault_bytes f) c s) of
           (r, tr) \<Rightarrow> (r, io_fail (fault_bytes f) c s # tr))
      else case io_step c s of
        Inl e \<Rightarrow> (Some e, [])
      | Inr s' \<Rightarrow> (case run_io f (Suc i) cs s' of (r, tr) \<Rightarrow> (r, s' # tr)))"

text \<open>Lines 100 to 103, for the bytes \<open>bmp\<close>; \<open>zc\<close> is \<^verbatim>\<open>zlib.compress(_,9)\<close>.
  \<^verbatim>\<open>
      open(out+".tmp","wb").write(bmp)
      open(out+".z.tmp","wb").write(zlib.compress(bmp,9))
      os.replace(out+".tmp",out)
      os.replace(out+".z.tmp",out+".z")
  \<close>\<close>

definition write_files :: "fault \<Rightarrow> (byte list \<Rightarrow> byte list) \<Rightarrow> byte list \<Rightarrow> string \<Rightarrow> fs
    \<Rightarrow> pyerr option \<times> fs list" where
  "write_files f zc bmp out s =
     run_io f 0
       [OpenWB (out @ ''.tmp''), Write (out @ ''.tmp'') bmp,
        OpenWB (out @ ''.z.tmp''), Write (out @ ''.z.tmp'') (zc bmp),
        Replace (out @ ''.tmp'') out, Replace (out @ ''.z.tmp'') (out @ ''.z'')] s"

definition write_bmp :: "fault \<Rightarrow> (byte list \<Rightarrow> byte list) \<Rightarrow> image \<Rightarrow> string \<Rightarrow> fs
    \<Rightarrow> pyerr option \<times> fs list" where
  "write_bmp f zc img out s =
     (case bmp_bytes img of
        Inl e \<Rightarrow> (Some e, [])
      | Inr bmp \<Rightarrow> write_files f zc bmp out s)"

text \<open>The file system a reader finds after the run: the last state, or the initial one
  when no call ran.\<close>

definition final :: "fs \<Rightarrow> pyerr option \<times> fs list \<Rightarrow> fs" where
  "final s res = last (s # snd res)"

section \<open>Field interpolation\<close>

text \<open>The command-line arguments that the interpolation reads.\<close>

record args =
  grid_w :: int
  grid_h :: int
  k :: int
  p :: real
  influence_km :: real
  use_sza :: bool

definition EARTH_RADIUS_KM :: real where
  "EARTH_RADIUS_KM = 6371"

definition deg2rad :: "real \<Rightarrow> real" where
  "deg2rad x = x * pi / 180"

definition np_clip :: "real \<Rightarrow> real \<Rightarrow> real \<Rightarrow> real" where
  "np_clip x lo hi = min hi (max lo x)"

text \<open>
  \<^verbatim>\<open>
  def solar_mu0(lat, lon, t):
      jd = t/86400.0 + 2440587.5
      n = jd-2451545.0
      L = np.deg2rad((280.46 + 0.9856474*n)%360)
      g = np.deg2rad((357.528 + 0.9856003*n)%360)
      lam = L + np.deg2rad(1.915*np.sin(g)+0.020*np.sin(2*g))
      eps = np.deg2rad(23.439)
      delta = np.arcsin(np.sin(eps)*np.sin(lam))
      gmst = (280.46061837 + 360.98564736629*n)%360
      H = np.deg2rad((lon+gmst+540)%360-180)
      phi = np.deg2rad(lat)
      mu0 = np.sin(phi)*np.sin(delta)+np.cos(phi)*np.cos(delta)*np.cos(H)
      return np.clip(mu0,0,1)
  \<close>
\<close>

definition solar_mu0 :: "real \<Rightarrow> real \<Rightarrow> real \<Rightarrow> real" where
  "solar_mu0 lat lon t =
     (let jd = t / 86400 + 2440587.5;
          n = jd - 2451545;
          L = deg2rad (np_mod (280.46 + 0.9856474 * n) 360);
          g = deg2rad (np_mod (357.528 + 0.9856003 * n) 360);
          lam = L + deg2rad (1.915 * sin g + 0.020 * sin (2 * g));
          eps = deg2rad 23.439;
          delta = arcsin (sin eps * sin lam);
          gmst = np_mod (280.46061837 + 360.98564736629 * n) 360;
          H = deg2rad (np_mod (lon + gmst + 540) 360 - 180);
          phi = deg2rad lat;
          mu0 = sin phi * sin delta + cos phi * cos delta * cos H
      in np_clip mu0 0 1)"

text \<open>\<^verbatim>\<open>vals=np.log(np.clip(np.array([p[2] for p in pts]),5,35))\<close>\<close>

definition log_vals :: "(real \<times> real \<times> real \<times> real) list \<Rightarrow> real list" where
  "log_vals pts = map (\<lambda>(lon, lat, muf, conf). ln (np_clip muf 5 35)) pts"

text \<open>\<^verbatim>\<open>np.linspace(a,b,n)\<close>: ValueError for a negative number of samples.\<close>

definition linspace :: "real \<Rightarrow> real \<Rightarrow> int \<Rightarrow> pyerr + real list" where
  "linspace a b n =
     (if n < 0 then Inl ValueError
      else if n = 1 then Inr [a]
      else Inr (map (\<lambda>i. a + real i * ((b - a) / of_int (n - 1))) [0..<nat n]))"

text \<open>The element type of a numpy array. Arithmetic with an operand of type
  \<open>Object\<close> gives \<open>Object\<close> and is computed by the operators of the Python objects
  it holds; a mathematical function such as \<^verbatim>\<open>np.sin\<close> or \<^verbatim>\<open>np.exp\<close> on an
  \<open>Object\<close> array calls the method of that name on each element, which a Python float
  does not have: TypeError, unless the array has no element.\<close>

datatype dtype = Float64 | Object

text \<open>\<^verbatim>\<open>None*lonsr\<close>: \<open>None\<close> becomes an \<open>Object\<close> scalar, and each product
  \<^verbatim>\<open>None*x\<close> raises TypeError; an empty array gives an empty \<open>Object\<close> array.\<close>

definition none_times :: "real list \<Rightarrow> pyerr + dtype \<times> real list" where
  "none_times xs = (if xs = [] then Inr (Object, []) else Inl TypeError)"

text \<open>A function of numpy applied to an array of type \<open>dt\<close> with elements \<open>es\<close>.\<close>

definition ufunc_raises :: "dtype \<Rightarrow> 'a list \<Rightarrow> bool" where
  "ufunc_raises dt es = (dt = Object \<and> es \<noteq> [])"

text \<open>\<^verbatim>\<open>haversine_rad\<close> on the arrays of line 154: the cells of a band (their
  longitude and latitude in radians, one list per grid row) against the observations
  \<open>lon2\<close>, \<open>lat2\<close>; the result has one distance per cell and observation. In the body
  \<^verbatim>\<open>np.sin(dlat/2)\<close> comes first, on an array of the type of \<open>lat2\<close> with one element
  per cell and observation, then \<^verbatim>\<open>np.cos(lat2)\<close>.\<close>

definition haversine_nd :: "(real \<times> real) list list \<Rightarrow> real list \<Rightarrow> dtype \<times> real list
    \<Rightarrow> pyerr + dtype \<times> real list list list" where
  "haversine_nd cells lon2 lat2 =
     (case lat2 of (dt, lats) \<Rightarrow>
        let d = map (map (\<lambda>(lon1, lat1).
                  map (\<lambda>(lo2, la2). haversine_rad lon1 lat1 lo2 la2) (zip lon2 lats))) cells
        in if ufunc_raises dt (concat (concat d)) \<or> ufunc_raises dt lats then Inl TypeError
           else Inr (dt, d))"

text \<open>\<^verbatim>\<open>np.argpartition(d, kth, axis=2)\<close> on the distances of one cell. A negative
  \<open>kth\<close> counts from the end; \<open>kth\<close> out of bounds raises ValueError unless the whole
  array \<open>d\<close> is empty (\<open>nonempty\<close> is false). The result is a permutation of the indices
  with the \<open>kth\<close> smallest distance in place and no larger one before it: the model takes
  the indices in increasing order of distance.\<close>

definition argpartition :: "bool \<Rightarrow> real list \<Rightarrow> int \<Rightarrow> pyerr + nat list" where
  "argpartition nonempty ds kth =
     (let n = int (length ds); kth' = (if kth < 0 then kth + n else kth)
      in if nonempty \<and> (kth' < 0 \<or> kth' \<ge> n) then Inl ValueError
         else Inr (sort_key (\<lambda>i. ds ! i) [0..<length ds]))"

text \<open>The slice \<^verbatim>\<open>[:k]\<close>: a negative \<open>k\<close> counts from the end.\<close>

definition slice_to :: "int \<Rightarrow> 'a list \<Rightarrow> 'a list" where
  "slice_to n xs = (if n \<ge> 0 then take (nat n) xs else take (length xs - nat (- n)) xs)"

fun argpartition_nd :: "bool \<Rightarrow> real list list \<Rightarrow> int \<Rightarrow> pyerr + nat list list" where
  "argpartition_nd ne [] kth = Inr []"
| "argpartition_nd ne (ds # dss) kth =
     (case argpartition ne ds kth of
        Inl e \<Rightarrow> Inl e
      | Inr i \<Rightarrow> (case argpartition_nd ne dss kth of Inl e \<Rightarrow> Inl e | Inr is \<Rightarrow> Inr (i # is)))"

text \<open>Lines 156 to 169 for one cell at \<open>(glon, glat)\<close> (degrees), with its distances
  \<open>ds\<close> and selected indices \<open>idx\<close>: the quotient that \<^verbatim>\<open>np.exp\<close> is applied to.
  \<^verbatim>\<open>
          dk=np.take_along_axis(d,idx,axis=2)
          w=1/(dk+1e-6)**args.p
          w*=confs[idx]
          w=np.where(dk<=maxrad,w,0)
          latfac=(np.cos(np.deg2rad(np.abs(glat[y:y+32,:])))**1.5)[...,None]
          w*=latfac
          if args.use_sza:
              mu0=solar_mu0(glat[y:y+32,:],glon[y:y+32,:],now)
              w*=(mu0**0.7)[...,None]
          v=vals[idx]
          out[y:y+32]=np.exp(np.sum(w*v,axis=2)/(np.sum(w,axis=2)+1e-9))
  \<close>\<close>

definition blend :: "args \<Rightarrow> real \<Rightarrow> real list \<Rightarrow> real list \<Rightarrow> real \<times> real \<Rightarrow> real list
    \<Rightarrow> nat list \<Rightarrow> real" where
  "blend A now vals confs cell ds idx =
     (case cell of (glon, glat) \<Rightarrow>
        let maxrad = influence_km A / EARTH_RADIUS_KM;
            dk = map (\<lambda>i. ds ! i) idx;
            w1 = map (\<lambda>x. 1 / (x + 1 / 10 ^ 6) powr p A) dk;
            w2 = map (\<lambda>(w, i). w * confs ! i) (zip w1 idx);
            w3 = map (\<lambda>(x, w). if x \<le> maxrad then w else 0) (zip dk w2);
            latfac = cos (deg2rad \<bar>glat\<bar>) powr 1.5;
            w4 = map (\<lambda>w. w * latfac) w3;
            w5 = (if use_sza A then map (\<lambda>w. w * solar_mu0 glat glon now powr 0.7) w4 else w4);
            v = map (\<lambda>i. vals ! i) idx
        in sum_list (map (\<lambda>(w, x). w * x) (zip w5 v)) / (sum_list w5 + 1 / 10 ^ 9))"

text \<open>Line 155, \<^verbatim>\<open>idx=np.argpartition(d,args.k-1,axis=2)[:,:,:args.k]\<close>, on the
  distances \<open>d\<close> of a band.\<close>

definition select :: "int \<Rightarrow> real list list list \<Rightarrow> pyerr + nat list list list" where
  "select kk d =
     (case argpartition_nd (concat (concat d) \<noteq> []) (concat d) (kk - 1) of
        Inl e \<Rightarrow> Inl e
      | Inr part \<Rightarrow> Inr (reshape (map length d) (map (slice_to kk) part)))"

text \<open>Lines 156 to 169 on a band: \<open>blend\<close> for every cell, with its distances and
  its selected indices.\<close>

definition quotients :: "args \<Rightarrow> real \<Rightarrow> real list \<Rightarrow> real list \<Rightarrow> (real \<times> real) list list
    \<Rightarrow> real list list list \<Rightarrow> nat list list list \<Rightarrow> real list list" where
  "quotients A now vals confs band d idx =
     map (\<lambda>(cells, ds, is).
            map (\<lambda>(cell, dc, ic). blend A now vals confs cell dc ic) (zip cells (zip ds is)))
       (zip band (zip d idx))"

text \<open>The body of the loop over row bands, lines 154 to 169, for the cells of one band
  (longitude and latitude in degrees): the values assigned to \<^verbatim>\<open>out[y:y+32]\<close>.
  \<^verbatim>\<open>
          d=haversine_rad(glonr[y:y+32,:,None],glatr[y:y+32,:,None],lonsr,None*lonsr+latsr)
  \<close>
  The distances, the weights and the quotient have the element type of \<open>lat2\<close>.\<close>

definition interp_band :: "args \<Rightarrow> real \<Rightarrow> (real \<times> real \<times> real \<times> real) list
    \<Rightarrow> (real \<times> real) list list \<Rightarrow> pyerr + real list list" where
  "interp_band A now pts band =
     (let lonsr = map (\<lambda>(lon, lat, muf, conf). deg2rad lon) pts;
          latsr = map (\<lambda>(lon, lat, muf, conf). deg2rad lat) pts;
          confs = map (\<lambda>(lon, lat, muf, conf). conf) pts;
          vals = log_vals pts;
          cellsr = map (map (\<lambda>(glon, glat). (deg2rad glon, deg2rad glat))) band
      in case none_times lonsr of
           Inl e \<Rightarrow> Inl e
         | Inr (dt, nl) \<Rightarrow>
             (case haversine_nd cellsr lonsr (dt, map (\<lambda>(a, b). a + b) (zip nl latsr)) of
                Inl e \<Rightarrow> Inl e
              | Inr (dt', d) \<Rightarrow>
                  (case select (k A) d of
                     Inl e \<Rightarrow> Inl e
                   | Inr idx \<Rightarrow>
                       if ufunc_raises dt' (concat (quotients A now vals confs band d idx))
                       then Inl TypeError
                       else Inr (map (map exp) (quotients A now vals confs band d idx)))))"

text \<open>\<^verbatim>\<open>for y in range(0,args.grid_h,32)\<close>: the rows of the grid in bands of 32.\<close>

function bands :: "'a list \<Rightarrow> 'a list list" where
  "bands [] = []"
| "bands (r # rs) = take 32 (r # rs) # bands (drop 32 (r # rs))"
  by pat_completeness auto
termination
  by (relation "measure length") auto

fun run_bands :: "args \<Rightarrow> real \<Rightarrow> (real \<times> real \<times> real \<times> real) list
    \<Rightarrow> (real \<times> real) list list list \<Rightarrow> pyerr + real list list" where
  "run_bands A now pts [] = Inr []"
| "run_bands A now pts (b # bs) =
     (case interp_band A now pts b of
        Inl e \<Rightarrow> Inl e
      | Inr rows \<Rightarrow>
          (case run_bands A now pts bs of Inl e \<Rightarrow> Inl e | Inr rest \<Rightarrow> Inr (rows @ rest)))"

text \<open>\<^verbatim>\<open>out=np.clip(out,5,35)\<close>, line 171.\<close>

definition clamp_field :: "real list list \<Rightarrow> real list list" where
  "clamp_field out = map (map (\<lambda>v. np_clip v 5 35)) out"

text \<open>Lines 138 to 171 of \<^verbatim>\<open>main\<close>: from the observations \<open>pts\<close> to the clamped
  field, one list per grid row.\<close>

definition interp_field :: "args \<Rightarrow> real \<Rightarrow> (real \<times> real \<times> real \<times> real) list
    \<Rightarrow> pyerr + real list list" where
  "interp_field A now pts =
     (case linspace (-180) 180 (grid_w A) of
        Inl e \<Rightarrow> Inl e
      | Inr xs \<Rightarrow>
          (case linspace 90 (-90) (grid_h A) of
             Inl e \<Rightarrow> Inl e
           | Inr ys \<Rightarrow>
               (case run_bands A now pts (bands (map (\<lambda>lat. map (\<lambda>lon. (lon, lat)) xs) ys)) of
                  Inl e \<Rightarrow> Inl e
                | Inr out \<Rightarrow> Inr (clamp_field out))))"

text \<open>The default arguments of the command line.\<close>

definition default_args :: args where
  "default_args =
     \<lparr>grid_w = 720, grid_h = 360, k = 16, p = 2.8, influence_km = 4000, use_sza = False\<rparr>"

text \<open>A sample station record with the timestamp \<open>t\<close> and the confidence \<open>c\<close>.\<close>

definition rec_at :: "int \<Rightarrow> json \<Rightarrow> (string \<times> json) list" where
  "rec_at t c =
     [(''station'', JObj [(''longitude'', JStr ''-12.5''), (''latitude'', JInt 40)]),
      (''mufd'', JFloat 14.2), (''time'', JInt t), (''confidence'', c)]"

text \<open>The straight line through \<open>(x0, y0)\<close> and \<open>(x1, y1)\<close>, at \<open>x\<close>.\<close>

definition chord :: "real \<Rightarrow> real \<Rightarrow> real \<Rightarrow> real \<Rightarrow> real \<Rightarrow> real" where
  "chord x0 y0 x1 y1 x = (y1 - y0) / (x1 - x0) * (x - x0) + y0"

text \<open>A file system holding an earlier bitmap under the final name.\<close>

definition old_fs :: fs where
  "old_fs = [''m.bmp'' \<mapsto> [9]]"

section \<open>Properties of sample ingestion\<close>

lemmas sample_defs = sample_lib_def coords_def get_float_def dict_get_def get_or_def keep_def
  rescale_def float_of_int_def round_double_def decimal_def unsigned_decimal_def number_def digit_def
  replace_Z_def iso_basic_def days_from_civil_def days_in_month_def local_timestamp_def

text \<open>The only way \<^verbatim>\<open>parse_time\<close> raises: an int too large for a float. On every
  other argument it returns a float, and \<open>0.0\<close> on every argument that is neither a
  number nor a string that the library parses.\<close>

lemma parse_time_raises_only_on_huge_int:
  "parse_time L v = Inl e \<Longrightarrow>
     \<exists>n. v = JInt n \<and> \<bar>n\<bar> \<ge> 2 ^ 1024 - 2 ^ 970 \<and> e = OverflowError"
  by (cases v) (auto simp: float_of_int_def split: if_splits option.splits)

lemma parse_time_unparseable:
  "fromisoformat L (replace_Z s) = None \<Longrightarrow> parse_time L (JStr s) = Inr 0"
  by simp

text \<open>C10. \<^verbatim>\<open>parse_time\<close> is claimed total, returning a float on every argument.
  On the int \<open>10^400\<close>, which \<^verbatim>\<open>json.loads\<close> produces from a 401-digit literal,
  \<^verbatim>\<open>float(ts)\<close> is outside the \<^verbatim>\<open>try\<close> and raises OverflowError.\<close>

theorem parse_time_huge_int_raises:
  "parse_time L (JInt (10 ^ 400)) = Inl OverflowError"
  by (simp add: float_of_int_def)

text \<open>C2. A timestamp string with a trailing \<^verbatim>\<open>Z\<close> is claimed to be parsed as a UTC
  instant, whatever the local time zone. The letter is removed and the naive datetime is
  read as local time: on a host one hour east of UTC the string
  \<^verbatim>\<open>2024-01-01T00:00:00Z\<close> gives 1704063600, on a host at UTC 1704067200 (the
  UTC instant).\<close>

theorem parse_time_Z_local_zone:
  "parse_time (sample_lib 3600) (JStr ''2024-01-01T00:00:00Z'') = Inr 1704063600
   \<and> parse_time (sample_lib 0) (JStr ''2024-01-01T00:00:00Z'') = Inr 1704067200"
  by (simp add: sample_defs)

text \<open>C3. The freshness filter is a strict greater-than on the age: a record that
  passes the conversions of the \<^verbatim>\<open>try\<close> and whose confidence converts is skipped
  exactly when \<open>now - t > 3600\<close> for its parsed timestamp \<open>t\<close>; at an age of exactly
  3600 seconds it is retained, at exactly 3601 seconds it is skipped.\<close>

theorem freshness_strict:
  assumes "coords L (get_or kvs ''station'' (JObj [])) (JObj kvs) = Some (lon, lat, muf)"
    and "parse_time L (get_or kvs ''time'' JNull) = Inr t"
    and "py_float L (get_or kvs ''confidence'' (JInt 1)) = Inr conf"
  shows "(ingest_record L now (JObj kvs) = Inr None) = (now - t > 3600)
     \<and> (now - t = 3600 \<longrightarrow>
          ingest_record L now (JObj kvs) = Inr (Some (lon, lat, muf, rescale conf)))
     \<and> (now - t = 3601 \<longrightarrow> ingest_record L now (JObj kvs) = Inr None)"
  using assms by (simp add: keep_def)

theorem freshness_strict_witness:
  "ingest_record (sample_lib 0) 4500 (JObj (rec_at 900 (JFloat 0.5)))
     = Inr (Some (-12.5, 40, 14.2, 0.5))
   \<and> ingest_record (sample_lib 0) 4500 (JObj (rec_at 899 (JFloat 0.5))) = Inr None"
proof -
  have a: "coords (sample_lib 0) (get_or (rec_at t c) ''station'' (JObj [])) (JObj (rec_at t c))
      = Some (-12.5, 40, 14.2)" for t c
    by (simp add: rec_at_def sample_defs)
  have b: "parse_time (sample_lib 0) (get_or (rec_at 900 c) ''time'' JNull) = Inr 900" for c
    by (simp add: rec_at_def sample_defs)
  have b': "parse_time (sample_lib 0) (get_or (rec_at 899 c) ''time'' JNull) = Inr 899" for c
    by (simp add: rec_at_def sample_defs)
  have c: "py_float (sample_lib 0) (get_or (rec_at t (JFloat 0.5)) ''confidence'' (JInt 1))
      = Inr 0.5" for t
    by (simp add: rec_at_def sample_defs)
  from freshness_strict [OF a b c, of 4500] freshness_strict [OF a b' c, of 4500]
  show ?thesis by (simp add: rescale_def)
qed

text \<open>C4, as stated: every retained observation has a confidence in \<open>[0,1]\<close>, whatever
  the raw value. A raw confidence of 150 is retained as 1.5.\<close>

theorem confidence_150_counterexample:
  "ingest_record (sample_lib 0) 1000 (JObj (rec_at 900 (JInt 150)))
     = Inr (Some (-12.5, 40, 14.2, 1.5))
   \<and> \<not> valid_confidence (-12.5, 40, 14.2, 1.5)"
  by (simp add: rec_at_def sample_defs valid_confidence_def)

text \<open>C4, amended: the confidence of a retained observation comes from the raw value
  \<open>c\<close> (1 when the record has no confidence field): \<open>c / 100\<close> when \<open>c > 1\<close>, \<open>c\<close>
  itself when \<open>c \<le> 1\<close>; it lies in \<open>[0,1]\<close> whenever \<open>c\<close> lies in \<open>[0,100]\<close>.\<close>

theorem confidence_rescaling:
  assumes "ingest_record L now (JObj kvs) = Inr (Some (lon, lat, muf, conf))"
  shows "\<exists>c. py_float L (get_or kvs ''confidence'' (JInt 1)) = Inr c
     \<and> (dict_get kvs ''confidence'' = None \<longrightarrow> conf = 1)
     \<and> (c > 1 \<longrightarrow> conf = c / 100)
     \<and> (c \<le> 1 \<longrightarrow> conf = c)
     \<and> (0 \<le> c \<and> c \<le> 100 \<longrightarrow> valid_confidence (lon, lat, muf, conf))"
  using assms
  by (auto simp: keep_def rescale_def valid_confidence_def get_or_def float_of_int_def
      round_double_def
      split: option.splits sum.splits if_splits prod.splits)

theorem confidence_rescaling_witness:
  "ingest_record (sample_lib 0) 1000 (JObj (rec_at 900 (JInt 50)))
     = Inr (Some (-12.5, 40, 14.2, 0.5))
   \<and> valid_confidence (-12.5, 40, 14.2, 0.5)"
proof -
  have h: "ingest_record (sample_lib 0) 1000 (JObj (rec_at 900 (JInt 50)))
     = Inr (Some (-12.5, 40, 14.2, 0.5))"
    by (simp add: rec_at_def sample_defs)
  have c: "py_float (sample_lib 0) (get_or (rec_at 900 (JInt 50)) ''confidence'' (JInt 1))
     = Inr 50"
    by (simp add: rec_at_def sample_defs)
  from confidence_rescaling [OF h] c have "valid_confidence (-12.5, 40, 14.2, 0.5)"
    by auto
  with h show ?thesis by simp
qed

section \<open>Properties of the geodesic distance\<close>

lemma sin_half_sq_periodic:
  "(sin ((x - 2 * pi * of_int n) / 2))\<^sup>2 = (sin (x / 2))\<^sup>2"
proof -
  have "cos (x - 2 * pi * of_int n) = cos x"
    by (simp add: cos_diff cos_int_2pin sin_int_2pin)
  moreover have "(sin (y / 2))\<^sup>2 = (1 - cos y) / 2" for y :: real
    using cos_double_sin [of "y / 2"] by simp
  ultimately show ?thesis by metis
qed

lemma dlon_eq:
  "dlon lon1 lon2 = (lon2 - lon1) - 2 * pi * of_int \<lfloor>(lon2 - lon1 + pi) / (2 * pi)\<rfloor>"
  by (simp add: dlon_def np_mod_def)

lemma sin_dlon_sq: "(sin (dlon lon1 lon2 / 2))\<^sup>2 = (sin ((lon2 - lon1) / 2))\<^sup>2"
  unfolding dlon_eq by (rule sin_half_sq_periodic)

lemma sin_neg_half_sq: "(sin ((a - b) / 2))\<^sup>2 = (sin ((b - a) / 2))\<^sup>2"
  for a b :: real
proof -
  have "(a - b) / 2 = - ((b - a) / 2)" by (simp add: field_simps)
  then show ?thesis by (simp only: sin_minus power2_minus)
qed

lemma haversine_sym: "haversine_rad lon1 lat1 lon2 lat2 = haversine_rad lon2 lat2 lon1 lat1"
  unfolding haversine_rad_def Let_def sin_dlon_sq
  by (simp add: sin_neg_half_sq [of lat1 lat2] sin_neg_half_sq [of lon1 lon2] mult.commute)

lemma haversine_self: "haversine_rad lon lat lon lat = 0"
  unfolding haversine_rad_def Let_def sin_dlon_sq by simp

lemma haversine_antipodal:
  "haversine_rad lon lat (lon + pi) (- lat) = pi"
  "haversine_rad lon lat (lon - pi) (- lat) = pi"
  unfolding haversine_rad_def Let_def sin_dlon_sq
  by (simp_all add: sin_neg_half_sq [of "lon - pi" lon] power2_eq_square [symmetric])

lemma dlon_range: "- pi \<le> dlon lon1 lon2" "dlon lon1 lon2 < pi"
proof -
  define y where "y = (lon2 - lon1 + pi) / (2 * pi)"
  have "of_int \<lfloor>y\<rfloor> \<le> y" "y < of_int \<lfloor>y\<rfloor> + 1" by linarith+
  then have "2 * pi * of_int \<lfloor>y\<rfloor> \<le> 2 * pi * y"
    "2 * pi * y < 2 * pi * (of_int \<lfloor>y\<rfloor> + 1)"
    by simp_all
  moreover have "2 * pi * y = lon2 - lon1 + pi" by (simp add: y_def)
  ultimately have "2 * pi * of_int \<lfloor>y\<rfloor> \<le> lon2 - lon1 + pi"
    "lon2 - lon1 + pi < 2 * pi * of_int \<lfloor>y\<rfloor> + 2 * pi"
    by (simp_all add: distrib_left)
  then show "- pi \<le> dlon lon1 lon2" "dlon lon1 lon2 < pi"
    unfolding dlon_def np_mod_def y_def [symmetric] by linarith+
qed

lemma haversine_wrap:
  "haversine_rad (lon1 + 2 * pi * of_int m) lat1 (lon2 + 2 * pi * of_int n) lat2
     = haversine_rad lon1 lat1 lon2 lat2"
proof -
  have "lon2 + 2 * pi * of_int n - (lon1 + 2 * pi * of_int m)
      = (lon2 - lon1) - 2 * pi * of_int (m - n)"
    by (simp add: algebra_simps)
  then show ?thesis
    unfolding haversine_rad_def Let_def sin_dlon_sq by (simp only: sin_half_sq_periodic)
qed

text \<open>C6, as stated: the longitude difference is normalised into \<open>(-\<pi>, \<pi>]\<close>. For two
  points half a turn apart the normalised difference is \<open>-\<pi>\<close>, outside that
  interval.\<close>

theorem dlon_half_turn_counterexample:
  "dlon 0 pi = - pi \<and> \<not> (- pi < dlon 0 pi)"
  by (simp add: dlon_def np_mod_def)

text \<open>C6, amended: over the reals \<^verbatim>\<open>haversine_rad\<close> is symmetric, it is 0 from a point
  to itself and \<open>\<pi>\<close> between antipodal points; the longitude difference is normalised
  into \<open>[-\<pi>, \<pi>)\<close>, and the distance does not change when a longitude is moved by whole
  turns, in particular across the antimeridian.\<close>

theorem haversine_properties:
  "haversine_rad lon1 lat1 lon2 lat2 = haversine_rad lon2 lat2 lon1 lat1
   \<and> haversine_rad lon1 lat1 lon1 lat1 = 0
   \<and> haversine_rad lon1 lat1 (lon1 + pi) (- lat1) = pi
   \<and> haversine_rad lon1 lat1 (lon1 - pi) (- lat1) = pi
   \<and> - pi \<le> dlon lon1 lon2 \<and> dlon lon1 lon2 < pi
   \<and> haversine_rad (lon1 + 2 * pi * of_int m) lat1 (lon2 + 2 * pi * of_int n) lat2
       = haversine_rad lon1 lat1 lon2 lat2"
  using haversine_sym [of lon1 lat1 lon2 lat2] haversine_self [of lon1 lat1]
    haversine_antipodal [of lon1 lat1] dlon_range [of lon1 lon2]
    haversine_wrap [of lon1 m lat1 lon2 n lat2]
  by simp

section \<open>Properties of the grid coordinates\<close>

lemma bit_length_bounds: "2 ^ j \<le> n \<Longrightarrow> n < 2 ^ Suc j \<Longrightarrow> bit_length n = Suc j"
proof (induction j arbitrary: n)
  case 0
  then have "n = 1" by simp
  then show ?case by (simp add: bit_length.simps [of "Suc 0"] bit_length.simps [of 0])
next
  case (Suc j)
  then have "2 ^ j \<le> n div 2" "n div 2 < 2 ^ Suc j" by simp_all
  from Suc.IH [OF this] Suc.prems show ?case
    by (subst bit_length.simps) auto
qed

lemma bit_length_54: "bit_length 9007199254740993 = 54"
  using bit_length_bounds [of 53 9007199254740993] by simp

lemma round_double_tie: "round_double 9007199254740993 = 9007199254740992"
  unfolding round_double_def Let_def by (simp add: bit_length_54)

lemma float_of_int_exact:
  "\<bar>n\<bar> \<le> 2 ^ 53 \<Longrightarrow> float_of_int n = Inr (of_int n)"
  by (simp add: float_of_int_def round_double_def)

text \<open>C8, as stated: for every width and height of at least 2 the result lies in the
  grid and \<open>(180, -90)\<close> maps to \<open>(w-1, h-1)\<close>. The product converts \<open>w-1\<close> to a
  float: for \<open>w = 2^53 + 2\<close> it rounds to \<open>2^53\<close> and the corner maps to column
  \<open>2^53\<close>, not \<open>w-1\<close>; for \<open>w = 10^400\<close> the conversion raises OverflowError.\<close>

theorem lonlat_to_xy_wide_grid_counterexample:
  "lonlat_to_xy 180 (- 90) (2 ^ 53 + 2) 2 = Inr (2 ^ 53, 1)
   \<and> lonlat_to_xy 180 (- 90) (2 ^ 53 + 2) 2 \<noteq> Inr (2 ^ 53 + 2 - 1, 2 - 1)
   \<and> lonlat_to_xy 180 (- 90) (10 ^ 400) 2 = Inl OverflowError"
proof -
  have f: "float_of_int (2 ^ 53 + 2 - 1) = Inr (2 ^ 53)"
    by (simp add: float_of_int_def round_double_tie)
  have g: "float_of_int (2 - 1) = Inr 1"
    by (simp add: float_of_int_def round_double_def)
  have o: "float_of_int (10 ^ 400 - 1) = Inl OverflowError"
    by (simp add: float_of_int_def)
  have "lonlat_to_xy 180 (- 90) (2 ^ 53 + 2) 2 = Inr (2 ^ 53, 1)"
    unfolding lonlat_to_xy_def f g by (simp add: py_int_def)
  moreover have "lonlat_to_xy 180 (- 90) (10 ^ 400) 2 = Inl OverflowError"
    unfolding lonlat_to_xy_def o by simp
  ultimately show ?thesis by simp
qed

text \<open>C8, amended: for a longitude in \<open>[-180,180]\<close>, a latitude in \<open>[-90,90]\<close> and a
  width and a height of at least 2 whose predecessors convert to a float,
  \<^verbatim>\<open>lonlat_to_xy\<close> returns a column in \<open>[0, w-1]\<close> and a row in \<open>[0, h-1]\<close>, and
  \<open>(-180, 90)\<close> maps to \<open>(0, 0)\<close>; for a width and a height up to \<open>2^53 + 1\<close>, where
  the conversion is exact, \<open>(180, -90)\<close> maps to \<open>(w-1, h-1)\<close>.\<close>

theorem lonlat_to_xy_in_grid:
  assumes "- 180 \<le> lon" "lon \<le> 180" "- 90 \<le> lat" "lat \<le> 90" "2 \<le> w" "2 \<le> h"
    and "w - 1 < 2 ^ 1024 - 2 ^ 970" "h - 1 < 2 ^ 1024 - 2 ^ 970"
  shows "(\<exists>x y. lonlat_to_xy lon lat w h = Inr (x, y)
            \<and> 0 \<le> x \<and> x \<le> w - 1 \<and> 0 \<le> y \<and> y \<le> h - 1)
     \<and> lonlat_to_xy (- 180) 90 w h = Inr (0, 0)
     \<and> (w \<le> 2 ^ 53 + 1 \<and> h \<le> 2 ^ 53 + 1 \<longrightarrow>
          lonlat_to_xy 180 (- 90) w h = Inr (w - 1, h - 1))"
proof -
  from assms obtain fw fh where
    f: "float_of_int (w - 1) = Inr fw" "float_of_int (h - 1) = Inr fh"
    by (auto simp: float_of_int_def)
  have 1: "\<exists>x y. lonlat_to_xy lon lat w h = Inr (x, y)
            \<and> 0 \<le> x \<and> x \<le> w - 1 \<and> 0 \<le> y \<and> y \<le> h - 1"
    using assms(5,6) unfolding lonlat_to_xy_def f by (auto simp: Let_def)
  have 2: "lonlat_to_xy (- 180) 90 w h = Inr (0, 0)"
    using assms(5,6) unfolding lonlat_to_xy_def f by (simp add: Let_def py_int_def)
  have 3: "lonlat_to_xy 180 (- 90) w h = Inr (w - 1, h - 1)"
    if "w \<le> 2 ^ 53 + 1" "h \<le> 2 ^ 53 + 1"
  proof -
    from that assms(5,6) have "\<bar>w - 1\<bar> \<le> 2 ^ 53" "\<bar>h - 1\<bar> \<le> 2 ^ 53" by simp_all
    then have e: "float_of_int (w - 1) = Inr (of_int (w - 1))"
      "float_of_int (h - 1) = Inr (of_int (h - 1))"
      by (simp_all only: float_of_int_exact)
    show ?thesis
      using assms(5,6) unfolding lonlat_to_xy_def e by (simp add: Let_def py_int_def)
  qed
  from 1 2 3 show ?thesis by blast
qed

theorem lonlat_to_xy_in_grid_witness:
  "lonlat_to_xy 0 0 720 360 = Inr (359, 179) \<and> lonlat_to_xy (- 180) 90 720 360 = Inr (0, 0)
   \<and> lonlat_to_xy 180 (- 90) 720 360 = Inr (719, 359)"
proof -
  have "lonlat_to_xy 0 0 720 360 = Inr (359, 179)"
    by (simp add: lonlat_to_xy_def float_of_int_def round_double_def Let_def py_int_def)
  with lonlat_to_xy_in_grid [of 0 0 720 360] show ?thesis by simp
qed

section \<open>Properties of the colour ramp\<close>

lemma reshape_concat: "reshape (map length xss) (map f (concat xss)) = map (map f) xss"
  by (induction xss) simp_all

lemma colormap_elementwise:
  "colormap mhz = map (map (\<lambda>v.
      (uint8 (np_interp v [5,10,15,20,25,30,35] [0,0,0,255,255,255,255]),
       uint8 (np_interp v [5,10,15,20,25,30,35] [0,180,255,255,165,60,0]),
       uint8 (np_interp v [5,10,15,20,25,30,35] [180,255,0,0,0,0,0])))) mhz"
proof -
  have z: "map (\<lambda>(r, g, b). (uint8 r, uint8 g, uint8 b)) (zip (map f xs) (zip (map g xs) (map h xs)))
      = map (\<lambda>v. (uint8 (f v), uint8 (g v), uint8 (h v))) xs" for f g h and xs :: "real list"
    by (induction xs) simp_all
  show ?thesis
    unfolding colormap_def Let_def z stops_def by (simp add: reshape_concat)
qed

lemma uint8_numeral: "uint8 0 = 0" "uint8 (numeral n) = numeral n"
  by (simp_all add: uint8_def py_int_def)

lemma stop_cases: "i < 7 \<Longrightarrow> i = 0 \<or> i = 1 \<or> i = 2 \<or> i = 3 \<or> i = 4 \<or> i = 5 \<or> i = (6::nat)"
  by arith

lemma colormap_at_stops:
  "colormap [[5]] = [[(0, 0, 180)]]" "colormap [[10]] = [[(0, 180, 255)]]"
  "colormap [[15]] = [[(0, 255, 0)]]" "colormap [[20]] = [[(255, 255, 0)]]"
  "colormap [[25]] = [[(255, 165, 0)]]" "colormap [[30]] = [[(255, 60, 0)]]"
  "colormap [[35]] = [[(255, 0, 0)]]"
  by (simp_all add: colormap_elementwise uint8_numeral)

lemma np_interp_segment:
  assumes "x0 < x1" "x0 \<le> x" "x \<le> x1" "length xp = length fp"
  shows "np_interp x (x0 # x1 # xp) (y0 # y1 # fp) = chord x0 y0 x1 y1 x"
proof (cases "x < x1")
  case True
  with assms show ?thesis by (auto simp: chord_def)
next
  case False
  with assms have x: "x = x1" by simp
  have "np_interp x1 (x1 # xp) (y1 # fp) = y1"
    using assms(4) by (cases xp; cases fp) simp_all
  with assms x show ?thesis by (simp add: chord_def)
qed

lemma np_interp_skip:
  "x1 \<le> x \<Longrightarrow> x0 < x1 \<Longrightarrow> np_interp x (x0 # x1 # xp) (y0 # y1 # fp) = np_interp x (x1 # xp) (y1 # fp)"
  by simp

lemma segment_cases: "i < 6 \<Longrightarrow> i = 0 \<or> i = 1 \<or> i = 2 \<or> i = 3 \<or> i = 4 \<or> i = (5::nat)"
  by arith

lemma colormap_segment:
  assumes "i < 6" "stops ! i = (x0, r0, g0, b0)" "stops ! Suc i = (x1, r1, g1, b1)"
    "x0 \<le> x" "x \<le> x1"
  shows "colormap [[x]] =
    [[(uint8 (chord x0 r0 x1 r1 x), uint8 (chord x0 g0 x1 g1 x), uint8 (chord x0 b0 x1 b1 x))]]"
  using segment_cases [OF assms(1)] assms(2-)
  by (elim disjE)
    (simp_all add: stops_def colormap_elementwise np_interp_segment np_interp_skip
      del: np_interp.simps)


lemma uint8_mono:
  assumes "0 \<le> a" "a \<le> b" "b < 256"
  shows "uint8 a \<le> uint8 b"
proof -
  have "0 \<le> \<lfloor>a\<rfloor>" "\<lfloor>a\<rfloor> \<le> \<lfloor>b\<rfloor>" "\<lfloor>b\<rfloor> < 256"
    using assms by (simp_all add: floor_mono floor_less_iff)
  then show ?thesis
    using assms by (simp add: uint8_def py_int_def word_le_def uint_word_of_int take_bit_eq_mod)
qed

lemma chord_mono:
  assumes "x0 < x1" "x0 \<le> x" "x \<le> y" "y \<le> x1"
  shows "y0 \<le> y1 \<Longrightarrow> y0 \<le> chord x0 y0 x1 y1 x \<and> chord x0 y0 x1 y1 x \<le> chord x0 y0 x1 y1 y
            \<and> chord x0 y0 x1 y1 y \<le> y1"
    and "y1 \<le> y0 \<Longrightarrow> y1 \<le> chord x0 y0 x1 y1 y \<and> chord x0 y0 x1 y1 y \<le> chord x0 y0 x1 y1 x
            \<and> chord x0 y0 x1 y1 x \<le> y0"
proof -
  define s where "s = (y1 - y0) / (x1 - x0)"
  have c: "chord x0 y0 x1 y1 z = s * (z - x0) + y0" for z by (simp add: chord_def s_def)
  have e: "s * (x1 - x0) = y1 - y0" using assms(1) by (simp add: s_def)
  { assume "y0 \<le> y1"
    then have "0 \<le> s" using assms(1) by (simp add: s_def)
    then have "0 \<le> s * (x - x0)" "s * (x - x0) \<le> s * (y - x0)" "s * (y - x0) \<le> s * (x1 - x0)"
      using assms by (simp_all add: mult_left_mono)
    then show "y0 \<le> chord x0 y0 x1 y1 x \<and> chord x0 y0 x1 y1 x \<le> chord x0 y0 x1 y1 y
            \<and> chord x0 y0 x1 y1 y \<le> y1"
      unfolding c e by simp }
  { assume "y1 \<le> y0"
    then have "s \<le> 0" using assms(1) by (simp add: s_def divide_nonpos_pos)
    then have "s * (x - x0) \<le> 0" "s * (y - x0) \<le> s * (x - x0)" "s * (x1 - x0) \<le> s * (y - x0)"
      using assms by (simp_all add: mult_left_mono_neg mult_nonpos_nonneg)
    then show "y1 \<le> chord x0 y0 x1 y1 y \<and> chord x0 y0 x1 y1 y \<le> chord x0 y0 x1 y1 x
            \<and> chord x0 y0 x1 y1 x \<le> y0"
      unfolding c e by simp }
qed

lemma channel_mono:
  assumes "x0 < x1" "x0 \<le> x" "x \<le> y" "y \<le> x1" "0 \<le> y0" "y0 < 256" "0 \<le> y1" "y1 < 256"
  shows "(y0 \<le> y1 \<longrightarrow> uint8 (chord x0 y0 x1 y1 x) \<le> uint8 (chord x0 y0 x1 y1 y))
     \<and> (y1 \<le> y0 \<longrightarrow> uint8 (chord x0 y0 x1 y1 y) \<le> uint8 (chord x0 y0 x1 y1 x))"
proof (intro conjI impI)
  assume "y0 \<le> y1"
  from chord_mono(1) [OF assms(1-4) this] assms(5-) show
    "uint8 (chord x0 y0 x1 y1 x) \<le> uint8 (chord x0 y0 x1 y1 y)"
    by (intro uint8_mono) linarith+
next
  assume "y1 \<le> y0"
  from chord_mono(2) [OF assms(1-4) this] assms(5-) show
    "uint8 (chord x0 y0 x1 y1 y) \<le> uint8 (chord x0 y0 x1 y1 x)"
    by (intro uint8_mono) linarith+
qed

lemma stops_facts:
  assumes "i < 6" "stops ! i = (x0, r0, g0, b0)" "stops ! Suc i = (x1, r1, g1, b1)"
  shows "x0 < x1 \<and> 0 \<le> r0 \<and> r0 < 256 \<and> 0 \<le> g0 \<and> g0 < 256 \<and> 0 \<le> b0 \<and> b0 < 256
     \<and> 0 \<le> r1 \<and> r1 < 256 \<and> 0 \<le> g1 \<and> g1 < 256 \<and> 0 \<le> b1 \<and> b1 < 256"
  using segment_cases [OF assms(1)] assms(2-)
  by (elim disjE) (auto simp: stops_def)

lemma colormap_monotone:
  assumes "i < 6" "stops ! i = (x0, r0, g0, b0)" "stops ! Suc i = (x1, r1, g1, b1)"
    "x0 \<le> x" "x \<le> y" "y \<le> x1"
    "colormap [[x]] = [[(rx, gx, bx)]]" "colormap [[y]] = [[(ry, gy, bz)]]"
  shows "(r0 \<le> r1 \<longrightarrow> rx \<le> ry) \<and> (r1 \<le> r0 \<longrightarrow> ry \<le> rx)
     \<and> (g0 \<le> g1 \<longrightarrow> gx \<le> gy) \<and> (g1 \<le> g0 \<longrightarrow> gy \<le> gx)
     \<and> (b0 \<le> b1 \<longrightarrow> bx \<le> bz) \<and> (b1 \<le> b0 \<longrightarrow> bz \<le> bx)"
proof -
  note f = stops_facts [OF assms(1-3)]
  have x: "x \<le> x1" "x0 \<le> y" using assms by simp_all
  from colormap_segment [OF assms(1-4) x(1)] assms(7)
  have cx: "rx = uint8 (chord x0 r0 x1 r1 x)" "gx = uint8 (chord x0 g0 x1 g1 x)"
    "bx = uint8 (chord x0 b0 x1 b1 x)" by simp_all
  from colormap_segment [OF assms(1-3) x(2) assms(6)] assms(8)
  have cy: "ry = uint8 (chord x0 r0 x1 r1 y)" "gy = uint8 (chord x0 g0 x1 g1 y)"
    "bz = uint8 (chord x0 b0 x1 b1 y)" by simp_all
  from f have x01: "x0 < x1" by simp
  show ?thesis
    unfolding cx cy
    using channel_mono [OF x01 assms(4-6), of r0 r1] channel_mono [OF x01 assms(4-6), of g0 g1]
      channel_mono [OF x01 assms(4-6), of b0 b1] f
    by simp
qed


text \<open>C9. The colour of a value is read off the fixed table of seven stops: between
  two neighbouring stops each channel is the chord through them, truncated to a byte,
  and so rises or falls with the value as the stops do; at a stop the colour is the
  stop's own, in particular \<open>(0,0,180)\<close> at 5, \<open>(255,255,0)\<close> at 20 and \<open>(255,0,0)\<close>
  at 35.\<close>

theorem colormap_ramp:
  assumes "i < 6" "stops ! i = (x0, r0, g0, b0)" "stops ! Suc i = (x1, r1, g1, b1)"
    "x0 \<le> x" "x \<le> y" "y \<le> x1"
  shows "colormap [[5]] = [[(0, 0, 180)]] \<and> colormap [[20]] = [[(255, 255, 0)]]
     \<and> colormap [[35]] = [[(255, 0, 0)]]
     \<and> colormap [[x0]] = [[(uint8 r0, uint8 g0, uint8 b0)]]
     \<and> colormap [[x1]] = [[(uint8 r1, uint8 g1, uint8 b1)]]
     \<and> colormap [[x]] = [[(uint8 (chord x0 r0 x1 r1 x), uint8 (chord x0 g0 x1 g1 x),
                            uint8 (chord x0 b0 x1 b1 x))]]
     \<and> (\<exists>rx gx bx ry gy bz. colormap [[x]] = [[(rx, gx, bx)]] \<and> colormap [[y]] = [[(ry, gy, bz)]]
          \<and> (r0 \<le> r1 \<longrightarrow> rx \<le> ry) \<and> (r1 \<le> r0 \<longrightarrow> ry \<le> rx)
          \<and> (g0 \<le> g1 \<longrightarrow> gx \<le> gy) \<and> (g1 \<le> g0 \<longrightarrow> gy \<le> gx)
          \<and> (b0 \<le> b1 \<longrightarrow> bx \<le> bz) \<and> (b1 \<le> b0 \<longrightarrow> bz \<le> bx))"
proof -
  note f = stops_facts [OF assms(1-3)]
  have le: "x \<le> x1" "x0 \<le> y" "x0 \<le> x1" using assms(4-6) by simp_all
  have e0: "colormap [[x0]] = [[(uint8 r0, uint8 g0, uint8 b0)]]"
    using colormap_segment [OF assms(1-3) order_refl le(3)] by (simp add: chord_def)
  have e1: "colormap [[x1]] = [[(uint8 r1, uint8 g1, uint8 b1)]]"
    using colormap_segment [OF assms(1-3) le(3) order_refl] f by (simp add: chord_def)
  note cx = colormap_segment [OF assms(1-4) le(1)]
  note cy = colormap_segment [OF assms(1-3) le(2) assms(6)]
  from colormap_monotone [OF assms cx cy] cx cy
  have m: "\<exists>rx gx bx ry gy bz. colormap [[x]] = [[(rx, gx, bx)]] \<and> colormap [[y]] = [[(ry, gy, bz)]]
          \<and> (r0 \<le> r1 \<longrightarrow> rx \<le> ry) \<and> (r1 \<le> r0 \<longrightarrow> ry \<le> rx)
          \<and> (g0 \<le> g1 \<longrightarrow> gx \<le> gy) \<and> (g1 \<le> g0 \<longrightarrow> gy \<le> gx)
          \<and> (b0 \<le> b1 \<longrightarrow> bx \<le> bz) \<and> (b1 \<le> b0 \<longrightarrow> bz \<le> bx)"
    by blast
  from e0 e1 cx m show ?thesis by (simp add: colormap_at_stops)
qed

theorem colormap_ramp_witness:
  "colormap [[5]] = [[(0, 0, 180)]] \<and> colormap [[7.5]] = [[(0, 90, 217)]]
   \<and> colormap [[10]] = [[(0, 180, 255)]]"
proof -
  have s: "stops ! 0 = (5, 0, 0, 180)" "stops ! Suc 0 = (10, 0, 180, 255)"
    by (simp_all add: stops_def)
  have u: "uint8 (chord 5 0 10 0 7.5) = 0" "uint8 (chord 5 0 10 180 7.5) = 90"
    "uint8 (chord 5 180 10 255 7.5) = 217"
    by (simp_all add: chord_def uint8_def py_int_def)
  from colormap_ramp [OF _ s, of "7.5" 10] u show ?thesis
    by (simp add: uint8_numeral)
qed

section \<open>Properties of bitmap persistence\<close>

text \<open>The format of the info header names 19 fields and the call passes 20 values, so
  \<^verbatim>\<open>struct.pack\<close> raises on every image: \<^verbatim>\<open>write_bmp\<close> as written stops at
  line 97, before it opens a file.\<close>

lemma v4_raises:
  "struct_pack [FI, Fi, Fi, FH, FH, FI, FI, Fi, Fi, FI, FI, FI, FI, FI, FI, Fs 36, FI, FI, FI]
     [a1, a2, a3, a4, a5, a6, a7, a8, a9, a10, a11, a12, a13, a14, a15, a16, a17, a18, a19, a20]
   = Inl StructError"
  by (simp add: struct_pack_def)

lemma bmp_bytes_raises: "\<exists>e. bmp_bytes img = Inl e"
  by (simp add: bmp_bytes_def Let_def v4_raises split: sum.splits)

lemma write_bmp_raises: "\<exists>e. write_bmp f zc img out s = (Some e, [])"
  using bmp_bytes_raises [of img] by (auto simp: write_bmp_def)

lemma fault_index:
  "f = NoFault \<or> (\<exists>n. f = Fault 0 n) \<or> (\<exists>n. f = Fault 1 n) \<or> (\<exists>n. f = Fault 2 n)
   \<or> (\<exists>n. f = Fault 3 n) \<or> (\<exists>n. f = Fault 4 n) \<or> (\<exists>n. f = Fault 5 n)
   \<or> (\<exists>j n. f = Fault j n \<and> 6 \<le> j) \<or> (\<exists>n. f = Silent 1 n) \<or> (\<exists>n. f = Silent 3 n)
   \<or> (\<exists>j n. f = Silent j n \<and> j \<noteq> 1 \<and> j \<noteq> 3)"
proof (cases f)
  case NoFault
  then show ?thesis by simp
next
  case (Fault j n)
  have "j = 0 \<or> j = 1 \<or> j = 2 \<or> j = 3 \<or> j = 4 \<or> j = 5 \<or> 6 \<le> j" by arith
  with Fault show ?thesis by auto
next
  case (Silent j n)
  then show ?thesis by auto
qed

lemmas io_defs = write_files_def faulty_def fault_bytes_def final_def

text \<open>The part of the claim that the write sequence keeps: an exception raised before
  the renames leaves the final-named files as they were.\<close>

lemma write_files_failure_before_renames:
  assumes "fst (write_files f zc bmp out s) \<noteq> None"
    "length (snd (write_files f zc bmp out s)) \<le> 4"
  shows "(\<forall>t\<in>set (snd (write_files f zc bmp out s)).
            t out = s out \<and> t (out @ ''.z'') = s (out @ ''.z''))
     \<and> final s (write_files f zc bmp out s) out = s out
     \<and> final s (write_files f zc bmp out s) (out @ ''.z'') = s (out @ ''.z'')"
  using fault_index [of f] assms
  by (elim disjE exE conjE) (auto simp: io_defs)

text \<open>C7. On success \<^verbatim>\<open>write_bmp\<close> is claimed to leave both final-named files fully
  written, with no reader ever seeing a partial file. On a 1x1 image (as on every
  image) \<^verbatim>\<open>write_bmp\<close> raises \<^verbatim>\<open>struct.error\<close> at line 97 and writes nothing. And
  the write sequence of lines 100 to 103 never closes its files: when the write of the
  temporary bitmap fails at the flush of finalisation, after 2 of 3 bytes, no exception
  is raised, the sequence ends normally and the truncated file is renamed to the final
  name.\<close>

theorem write_bmp_never_writes:
  "write_bmp f zc \<lparr>size_w = 1, size_h = 1, tobytes = [1, 2, 3]\<rparr> out s
     = (Some StructError, [])
   \<and> fst (write_files (Silent 1 2) rev [1, 2, 3] ''m.bmp'' old_fs) = None
   \<and> final old_fs (write_files (Silent 1 2) rev [1, 2, 3] ''m.bmp'' old_fs) ''m.bmp''
       = Some [1, 2]"
proof -
  have "pixels [1, 2, 3] (offsets 1 1) = Inr (le_bytes 2 (rgb565 1 2 3))"
    by (simp add: offsets_def pixel_def struct_pack_def rgb565_def)
  then have "bmp_bytes \<lparr>size_w = 1, size_h = 1, tobytes = [1, 2, 3]\<rparr> = Inl StructError"
    by (simp add: bmp_bytes_def Let_def v4_raises struct_pack_def [of "[Fs 2, FI, FH, FH, FI]"]
        le_bytes_def)
  then have "write_bmp f zc \<lparr>size_w = 1, size_h = 1, tobytes = [1, 2, 3]\<rparr> out s
     = (Some StructError, [])"
    by (simp add: write_bmp_def)
  moreover have "fst (write_files (Silent 1 2) rev [1, 2, 3] ''m.bmp'' old_fs) = None"
    by (simp add: io_defs old_fs_def)
  moreover have
    "final old_fs (write_files (Silent 1 2) rev [1, 2, 3] ''m.bmp'' old_fs) ''m.bmp''
       = Some [1, 2]"
    by (simp add: io_defs old_fs_def)
  ultimately show ?thesis by simp
qed

section \<open>Properties of the field interpolation\<close>

lemma interp_band_raises_with_observations:
  "pts \<noteq> [] \<Longrightarrow> interp_band A now pts band = Inl TypeError"
  by (simp add: interp_band_def none_times_def Let_def)

lemma run_bands_raises:
  "pts \<noteq> [] \<Longrightarrow> bs \<noteq> [] \<Longrightarrow> run_bands A now pts bs = Inl TypeError"
  by (cases bs) (simp_all add: interp_band_raises_with_observations)

lemma bands_nonempty: "rows \<noteq> [] \<Longrightarrow> bands rows \<noteq> []"
  by (cases rows) simp_all

lemma linspace_rows:
  "0 < n \<Longrightarrow> \<exists>r rs. linspace a b n = Inr (r # rs)"
proof -
  assume n: "0 < n"
  then have "[0..<nat n] = 0 # [1..<nat n]" by (simp add: upt_conv_Cons)
  then show ?thesis using n by (simp add: linspace_def)
qed

lemma linspace_cols: "0 \<le> n \<Longrightarrow> \<exists>xs. linspace a b n = Inr xs"
  by (simp add: linspace_def)

lemma interp_field_raises_with_observations:
  assumes "pts \<noteq> []" "0 \<le> grid_w A" "0 < grid_h A"
  shows "interp_field A now pts = Inl TypeError"
proof -
  from linspace_cols [OF assms(2)] obtain xs where xs: "linspace (-180) 180 (grid_w A) = Inr xs"
    by blast
  from linspace_rows [OF assms(3)] obtain r rs where ys: "linspace 90 (-90) (grid_h A) = Inr (r # rs)"
    by blast
  have "bands (map (\<lambda>lat. map (\<lambda>lon. (lon, lat)) xs) (r # rs)) \<noteq> []"
    by (rule bands_nonempty) simp
  with assms(1) show ?thesis
    unfolding interp_field_def xs ys by (simp add: run_bands_raises del: bands.simps)
qed


lemma argpartition_nd_length:
  "argpartition_nd ne dss kth = Inr part \<Longrightarrow> length part = length dss"
  by (induction dss arbitrary: part) (auto split: sum.splits)

lemma argpartition_nd_empty:
  "\<exists>part. argpartition_nd False dss kth = Inr part"
  by (induction dss) (auto simp: argpartition_def Let_def)

lemma map_length_reshape:
  "length ys = sum_list ns \<Longrightarrow> map length (reshape ns ys) = ns"
  by (induction ns arbitrary: ys) simp_all

lemma argpartition_nd_raises:
  "argpartition_nd ne dss kth = Inl e \<Longrightarrow> e = ValueError"
  by (induction dss) (auto simp: argpartition_def Let_def split: sum.splits if_splits)

lemma quotients_shape:
  assumes "map length d = map length band" "map length idx = map length band"
  shows "map length (quotients A now vals confs band d idx) = map length band"
  unfolding quotients_def using assms
proof (induction band arbitrary: d idx)
  case Nil then show ?case by simp
next
  case (Cons b band)
  then show ?case by (cases d; cases idx) auto
qed

lemma select_shape:
  assumes "select kk d = Inr idx"
  shows "map length idx = map length d"
proof -
  from assms obtain part where
    part: "argpartition_nd (concat (concat d) \<noteq> []) (concat d) (kk - 1) = Inr part"
    and idx: "idx = reshape (map length d) (map (slice_to kk) part)"
    by (auto simp: select_def split: sum.splits)
  have "length part = sum_list (map length d)"
    using argpartition_nd_length [OF part] by (simp add: length_concat)
  then show ?thesis by (simp add: idx map_length_reshape)
qed

lemma haversine_nd_shape:
  assumes "haversine_nd cells lon2 lat2 = Inr (dt, d)"
  shows "map length d = map length cells \<and> dt = fst lat2"
  using assms
  by (auto simp: haversine_nd_def Let_def comp_def split: prod.splits if_splits)

lemma select_empty:
  assumes "concat (concat d) = []"
  shows "\<exists>idx. select kk d = Inr idx"
proof -
  from argpartition_nd_empty obtain part
    where "argpartition_nd False (concat d) (kk - 1) = Inr part" by blast
  with assms show ?thesis by (simp add: select_def)
qed

lemma interp_band_no_observations:
  assumes "concat band \<noteq> []"
  shows "interp_band A now [] band = Inl TypeError"
proof -
  define cellsr where "cellsr = map (map (\<lambda>(glon, glat). (deg2rad glon, deg2rad glat))) band"
  define d :: "real list list list" where "d = map (map (\<lambda>c. [])) cellsr"
  have ds: "map length d = map length band"
    by (simp add: d_def cellsr_def comp_def)
  have dempty: "concat (concat d) = []"
    by (simp add: d_def)
  have hav: "haversine_nd cellsr [] (Object, []) = Inr (Object, d)"
    by (simp add: haversine_nd_def ufunc_raises_def d_def case_prod_unfold)
  from select_empty [OF dempty] obtain idx where sel: "select (k A) d = Inr idx"
    by blast
  define q where "q = quotients A now [] [] band d idx"
  from select_shape [OF sel] ds have "map length idx = map length band" by simp
  from quotients_shape [OF ds this]
  have "length (concat q) = length (concat band)"
    by (simp add: length_concat q_def)
  moreover from assms have "length (concat band) \<noteq> 0"
    by (simp only: length_0_conv not_False_eq_True)
  ultimately have "concat q \<noteq> []"
    by (metis length_0_conv)
  then have u: "ufunc_raises Object (concat q)" by (simp add: ufunc_raises_def)
  show ?thesis
    unfolding interp_band_def
    by (simp add: none_times_def Let_def cellsr_def [symmetric] hav sel log_vals_def
        q_def [symmetric] u)
qed

lemma interp_field_no_observations_raises:
  assumes "0 < grid_w A" "0 < grid_h A"
  shows "interp_field A now [] = Inl TypeError"
proof -
  from linspace_rows [OF assms(1)] obtain x xs where xs: "linspace (-180) 180 (grid_w A) = Inr (x # xs)"
    by blast
  from linspace_rows [OF assms(2)] obtain r rs where ys: "linspace 90 (-90) (grid_h A) = Inr (r # rs)"
    by blast
  have "concat (take 32 (map (\<lambda>lat. map (\<lambda>lon. (lon, lat)) (x # xs)) (r # rs))) \<noteq> []"
    by simp
  then show ?thesis
    unfolding interp_field_def xs ys
    by (simp add: interp_band_no_observations del: take_Cons_numeral)
qed

text \<open>C1. With fewer than \<open>k\<close> observations the interpolation is claimed to use
  them all and to produce a field without an error. With the default arguments and one
  observation, line 154 multiplies \<open>None\<close> by the longitudes and raises TypeError; with
  no observation, \<^verbatim>\<open>np.exp\<close> at line 169 raises TypeError on the untyped quotient.\<close>

theorem interp_field_few_observations_raise:
  "interp_field default_args now [(0, 0, 10, 1)] = Inl TypeError
   \<and> interp_field default_args now [] = Inl TypeError"
proof -
  have "interp_field default_args now [(0, 0, 10, 1)] = Inl TypeError"
    by (rule interp_field_raises_with_observations) (simp_all add: default_args_def)
  moreover have "interp_field default_args now [] = Inl TypeError"
    by (rule interp_field_no_observations_raises) (simp_all add: default_args_def)
  ultimately show ?thesis by simp
qed

text \<open>The last step by itself: \<^verbatim>\<open>np.clip\<close> puts every value of any array into
  \<open>[5,35]\<close>, and the logarithms that would enter the blend are those of values
  clamped into \<open>[5,35]\<close>.\<close>

lemma clamp_field_range:
  "row \<in> set (clamp_field out) \<Longrightarrow> v \<in> set row \<Longrightarrow> 5 \<le> v \<and> v \<le> 35"
  by (auto simp: clamp_field_def np_clip_def)

lemma log_vals_range: "v \<in> set (log_vals pts) \<Longrightarrow> ln 5 \<le> v \<and> v \<le> ln 35"
  by (auto simp: log_vals_def np_clip_def)

text \<open>The interpolation returns a field only for a grid without a cell.\<close>

lemma interp_field_raises_on_cells:
  assumes "0 < grid_w A" "0 < grid_h A"
  shows "interp_field A now pts = Inl TypeError"
proof (cases pts)
  case Nil
  with assms show ?thesis by (simp add: interp_field_no_observations_raises)
next
  case (Cons a list)
  with assms show ?thesis by (simp add: interp_field_raises_with_observations)
qed

text \<open>C5. Fed an observation of 1000 MHz, the interpolation is claimed to yield a
  field whose values all lie in \<open>[5,35]\<close>. With the default arguments it yields no
  field: line 154 raises TypeError before any value is computed, so neither the
  pre-clamp nor the final clamp comes to bound an output.\<close>

theorem interp_field_1000_mhz_raises:
  "interp_field default_args now [(0, 0, 1000, 1)] = Inl TypeError"
  by (rule interp_field_raises_with_observations) (simp_all add: default_args_def)

end
